theory Spec2Isabelle
  imports Complex_Main
begin

section \<open>Data model (shared/models/base.py, customer\_api/main.py)\<close>

text \<open>
  The records follow the pydantic models of \<^verbatim>\<open>shared/models/base.py\<close> and the request
  models of \<^verbatim>\<open>customer_api/main.py\<close>. Record fields are global names in HOL, so each
  field carries a short prefix for its class: \<open>sh_\<close> Shop, \<open>pv_\<close> ProductVariant, \<open>p_\<close>
  Product, \<open>ci_\<close> CartItem, \<open>oc_\<close> OrderCreate, \<open>oi_\<close> OrderItem, \<open>o_\<close> Order.

  Python \<^verbatim>\<open>int\<close> is \<^typ>\<open>int\<close>. The money fields are declared \<^verbatim>\<open>float\<close> in the source; they
  are modelled by their mathematical values in \<^typ>\<open>real\<close>, so \<open>+\<close> and \<open>*\<close> below are the
  exact operations and nothing here speaks about rounding. Timestamps are modelled as the
  ISO text that \<^verbatim>\<open>_serialize_datetime\<close> writes.

  Shop and Product have further descriptive fields (address, category, images, ...) that
  \<^verbatim>\<open>create_order\<close> never reads; they are left out of the records.
\<close>

datatype OrderStatus = PENDING | ACCEPTED | PREPARING | OUT_FOR_DELIVERY | DELIVERED | CANCELLED

datatype DeliveryType = DELIVERY | PICKUP

record Shop =
  sh_shop_id :: string
  sh_name :: string
  sh_status :: string
  sh_is_open :: bool
  sh_accepting_orders :: bool
  sh_minimum_order :: real
  sh_delivery_fee :: real

record ProductVariant =
  pv_variant_id :: string
  pv_name :: string
  pv_sku :: string
  pv_mrp :: real
  pv_selling_price :: real
  pv_stock_quantity :: int
  pv_is_active :: bool

record Product =
  p_product_id :: string
  p_shop_id :: string
  p_name :: string
  p_variants :: "ProductVariant list"
  p_is_active :: bool

record CartItem =
  ci_product_id :: string
  ci_variant_id :: string
  ci_quantity :: int

record OrderCreate =
  oc_shop_id :: string
  oc_items :: "CartItem list"
  oc_delivery_type :: DeliveryType
  oc_delivery_address :: "string option"
  oc_customer_notes :: "string option"

record OrderItem =
  oi_item_id :: string
  oi_product_id :: string
  oi_variant_id :: string
  oi_product_name :: string
  oi_variant_name :: string
  oi_quantity :: int
  oi_unit_price :: real
  oi_total_price :: real

record Order =
  o_order_id :: string
  o_customer_id :: string
  o_shop_id :: string
  o_items :: "OrderItem list"
  o_subtotal :: real
  o_delivery_fee :: real
  o_total_amount :: real
  o_status :: OrderStatus
  o_delivery_type :: DeliveryType
  o_delivery_address :: "string option"
  o_customer_notes :: "string option"
  o_merchant_notes :: "string option"
  o_estimated_delivery :: "string option"
  o_created_at :: string
  o_updated_at :: string

text \<open>\<^verbatim>\<open>raise HTTPException(status_code=..., detail=...)\<close> becomes a value.\<close>

datatype HTTPException = HTTPException (status_code: nat) (detail: string)

section \<open>The record store (shared/database/dynamodb.py)\<close>

text \<open>
  The three tables \<^verbatim>\<open>create_order\<close> touches are maps from the key attribute to the item.
  The field \<open>calls\<close> is a history of the \<^verbatim>\<open>db_service\<close> methods invoked so far, oldest
  first; the source has no such log, it is kept here so that statements about which
  collaborator is invoked, and in which order, can be written down.

  Assumptions on the store: its methods do not raise, and every stored item has the
  fields of its model with values of the declared types (in particular no text field
  holds an ISO timestamp ending in Z, the only values \<^verbatim>\<open>_deserialize_datetime\<close>
  rewrites). Under them no statement of the handler raises anything but the
  \<^verbatim>\<open>HTTPException\<close>s written out below, so its \<^verbatim>\<open>except Exception\<close> branch
  (HTTP 500) has no counterpart here.
\<close>

datatype db_call = GetShop string | GetProduct string | PutOrder Order

record db =
  shops_table :: "string \<rightharpoonup> Shop"
  products_table :: "string \<rightharpoonup> Product"
  orders_table :: "string \<rightharpoonup> Order"
  calls :: "db_call list"

text \<open>\<^verbatim>\<open>DynamoDBService.get_shop\<close>: the item under the key, or None.\<close>

definition get_shop :: "db \<Rightarrow> string \<Rightarrow> Shop option \<times> db" where
  "get_shop s shop_id = (shops_table s shop_id, s\<lparr>calls := calls s @ [GetShop shop_id]\<rparr>)"

text \<open>\<^verbatim>\<open>DynamoDBService.get_product\<close>.\<close>

definition get_product :: "db \<Rightarrow> string \<Rightarrow> Product option \<times> db" where
  "get_product s product_id =
     (products_table s product_id, s\<lparr>calls := calls s @ [GetProduct product_id]\<rparr>)"

text \<open>
  \<^verbatim>\<open>DynamoDBService.create_order\<close>: \<^verbatim>\<open>put_item\<close> stores the item under its \<^verbatim>\<open>order_id\<close>
  (replacing an item with the same key) and the stored item is returned.
\<close>

definition db_create_order :: "db \<Rightarrow> Order \<Rightarrow> Order \<times> db" where
  "db_create_order s order =
     (order, s\<lparr>orders_table := (orders_table s)(o_order_id order \<mapsto> order),
                calls := calls s @ [PutOrder order]\<rparr>)"

section \<open>Order creation (customer\_api/main.py, create\_order)\<close>

text \<open>
  What the handler draws from outside the store: the texts of the successive
  \<^verbatim>\<open>uuid.uuid4()\<close> results of this request (numbered from 0) and the two readings of
  \<^verbatim>\<open>datetime.utcnow\<close> that fill \<^verbatim>\<open>created_at\<close> and \<^verbatim>\<open>updated_at\<close>.
\<close>

record env =
  uuid4 :: "nat \<Rightarrow> string"
  utcnow :: "nat \<Rightarrow> string"

text \<open>\<^verbatim>\<open>str.upper\<close> on ASCII text.\<close>

definition upper_char :: "char \<Rightarrow> char" where
  "upper_char c =
     (let n = (of_char c :: nat) in if 97 \<le> n \<and> n \<le> 122 then char_of (n - 32) else c)"

definition upper :: "string \<Rightarrow> string" where
  "upper = map upper_char"

text \<open>
  \<^verbatim>\<open>next((v for v in product["variants"] if v["variant_id"] == variant_id), None)\<close>:
  the first variant with that id.
\<close>

fun find_variant :: "ProductVariant list \<Rightarrow> string \<Rightarrow> ProductVariant option" where
  "find_variant [] vid = None"
| "find_variant (v # vs) vid = (if pv_variant_id v = vid then Some v else find_variant vs vid)"

text \<open>
  The \<^verbatim>\<open>for cart_item in order_data.items\<close> loop, with its two accumulators \<open>items\<close> and
  \<open>subtotal\<close>. A \<^verbatim>\<open>raise\<close> leaves the loop with \<open>Inl\<close>. The item id is the next
  \<^verbatim>\<open>uuid4\<close>; one is drawn for each item appended, so its number is \<open>length items\<close>.
\<close>

fun process_items ::
  "db \<Rightarrow> env \<Rightarrow> CartItem list \<Rightarrow> OrderItem list \<Rightarrow> real
     \<Rightarrow> (HTTPException + OrderItem list \<times> real) \<times> db" where
  "process_items s e [] items subtotal = (Inr (items, subtotal), s)"
| "process_items s e (cart_item # rest) items subtotal =
     (case get_product s (ci_product_id cart_item) of
        (None, s1) \<Rightarrow>
          (Inl (HTTPException 404 (''Product '' @ ci_product_id cart_item @ '' not found'')), s1)
      | (Some product, s1) \<Rightarrow>
          (case find_variant (p_variants product) (ci_variant_id cart_item) of
             None \<Rightarrow>
               (Inl (HTTPException 404
                       (''Variant '' @ ci_variant_id cart_item @ '' not found'')), s1)
           | Some variant \<Rightarrow>
               if pv_stock_quantity variant < ci_quantity cart_item
               then (Inl (HTTPException 400 (''Insufficient stock for '' @ p_name product)), s1)
               else
                 let item_total = pv_selling_price variant * real_of_int (ci_quantity cart_item)
                 in process_items s1 e rest
                      (items @ [\<lparr>oi_item_id = uuid4 e (length items),
                                 oi_product_id = ci_product_id cart_item,
                                 oi_variant_id = ci_variant_id cart_item,
                                 oi_product_name = p_name product,
                                 oi_variant_name = pv_name variant,
                                 oi_quantity = ci_quantity cart_item,
                                 oi_unit_price = pv_selling_price variant,
                                 oi_total_price = item_total\<rparr>])
                      (subtotal + item_total)))"

text \<open>
  The handler. \<open>user_id\<close> is \<^verbatim>\<open>current_user["user_id"]\<close>, supplied by the authentication
  dependency. The result is the HTTP error raised or the order returned, with the store
  as the call leaves it.
\<close>

definition create_order ::
  "db \<Rightarrow> env \<Rightarrow> string \<Rightarrow> OrderCreate \<Rightarrow> (HTTPException + Order) \<times> db" where
  "create_order s e user_id order_data =
     (case get_shop s (oc_shop_id order_data) of
        (None, s1) \<Rightarrow> (Inl (HTTPException 404 ''Shop not found''), s1)
      | (Some shop, s1) \<Rightarrow>
          if sh_status shop \<noteq> ''approved'' then (Inl (HTTPException 404 ''Shop not found''), s1)
          else if \<not> sh_accepting_orders shop
          then (Inl (HTTPException 400 ''Shop is not accepting orders''), s1)
          else
            (case process_items s1 e (oc_items order_data) [] 0 of
               (Inl err, s2) \<Rightarrow> (Inl err, s2)
             | (Inr (items, subtotal), s2) \<Rightarrow>
                 let delivery_fee =
                       (if oc_delivery_type order_data = DELIVERY then sh_delivery_fee shop else 0);
                     total_amount = subtotal + delivery_fee;
                     order = \<lparr>o_order_id = ''ORD'' @ upper (take 8 (uuid4 e (length items))),
                              o_customer_id = user_id,
                              o_shop_id = oc_shop_id order_data,
                              o_items = items,
                              o_subtotal = subtotal,
                              o_delivery_fee = delivery_fee,
                              o_total_amount = total_amount,
                              o_status = PENDING,
                              o_delivery_type = oc_delivery_type order_data,
                              o_delivery_address = oc_delivery_address order_data,
                              o_customer_notes = oc_customer_notes order_data,
                              o_merchant_notes = None,
                              o_estimated_delivery = None,
                              o_created_at = utcnow e 0,
                              o_updated_at = utcnow e 1\<rparr>
                 in (case db_create_order s2 order of (created_order, s3) \<Rightarrow>
                       (Inr created_order, s3))))"

section \<open>Notions used to state the properties\<close>

text \<open>
  These functions are not in the source; they name what the properties talk about.

  \<open>shop_error\<close> is the verdict of the handler's shop check on the stored shop: the error
  it raises, or \<open>None\<close> when the shop exists, is approved and accepts orders. Both
  errors are what the specification calls ShopUnavailable.
\<close>

definition shop_error :: "db \<Rightarrow> string \<Rightarrow> HTTPException option" where
  "shop_error s shop_id =
     (case shops_table s shop_id of
        None \<Rightarrow> Some (HTTPException 404 ''Shop not found'')
      | Some shop \<Rightarrow>
          if sh_status shop \<noteq> ''approved'' then Some (HTTPException 404 ''Shop not found'')
          else if \<not> sh_accepting_orders shop
          then Some (HTTPException 400 ''Shop is not accepting orders'')
          else None)"

text \<open>
  \<open>line_error\<close> is the verdict of the loop body on one cart line, taken alone against
  the stored catalogue: the first of product lookup, variant lookup and stock comparison
  that rejects the line, or \<open>None\<close> when the line passes all three. The two 404 errors
  are the specification's ItemNotFound, the 400 error its InsufficientStock.
\<close>

definition line_error :: "db \<Rightarrow> CartItem \<Rightarrow> HTTPException option" where
  "line_error s c =
     (case products_table s (ci_product_id c) of
        None \<Rightarrow> Some (HTTPException 404 (''Product '' @ ci_product_id c @ '' not found''))
      | Some product \<Rightarrow>
          (case find_variant (p_variants product) (ci_variant_id c) of
             None \<Rightarrow> Some (HTTPException 404 (''Variant '' @ ci_variant_id c @ '' not found''))
           | Some variant \<Rightarrow>
               if pv_stock_quantity variant < ci_quantity c
               then Some (HTTPException 400 (''Insufficient stock for '' @ p_name product))
               else None))"

text \<open>
  \<open>line_priced s c item\<close>: the order line \<open>item\<close> is the cart line \<open>c\<close> resolved and
  priced against the catalogue of \<open>s\<close>: same references and quantity, the names and the
  selling price of the stored variant, and total = price times quantity.
\<close>

definition line_priced :: "db \<Rightarrow> CartItem \<Rightarrow> OrderItem \<Rightarrow> bool" where
  "line_priced s c item =
     (case products_table s (ci_product_id c) of
        None \<Rightarrow> False
      | Some product \<Rightarrow>
          (case find_variant (p_variants product) (ci_variant_id c) of
             None \<Rightarrow> False
           | Some variant \<Rightarrow>
               oi_product_id item = ci_product_id c \<and>
               oi_variant_id item = ci_variant_id c \<and>
               oi_product_name item = p_name product \<and>
               oi_variant_name item = pv_name variant \<and>
               oi_quantity item = ci_quantity c \<and>
               oi_unit_price item = pv_selling_price variant \<and>
               oi_total_price item = pv_selling_price variant * real_of_int (ci_quantity c)))"

text \<open>The orders handed to the store's create operation in a call history, oldest first.\<close>

fun put_orders :: "db_call list \<Rightarrow> Order list" where
  "put_orders [] = []"
| "put_orders (PutOrder order # cs) = order # put_orders cs"
| "put_orders (GetShop shop_id # cs) = put_orders cs"
| "put_orders (GetProduct product_id # cs) = put_orders cs"

text \<open>The product lookups the loop makes for a run of cart lines.\<close>

definition lookups :: "CartItem list \<Rightarrow> db_call list" where
  "lookups cs = map (\<lambda>c. GetProduct (ci_product_id c)) cs"

section \<open>A small catalogue for concrete runs\<close>

text \<open>
  One approved shop with a delivery fee of 50 and two products, after the sample data of
  \<^verbatim>\<open>main.py\<close>: apples at 120 (stock 50) and milk at 60. \<open>catalogue n\<close> is the store in
  which \<open>n\<close> units of the 1L milk variant are in stock; the sample data has 5.
\<close>

definition demo_uuid4 :: "nat \<Rightarrow> string" where
  "demo_uuid4 k =
     (case k of
        0 \<Rightarrow> ''6fa459ea-ee8a-4ca4-894e-db77e160355e''
      | Suc 0 \<Rightarrow> ''16fd2706-8baf-433b-82eb-8c7fada847da''
      | Suc (Suc _) \<Rightarrow> ''886313e1-3b8a-4372-9b90-0c9aee199e5d'')"

definition demo_env :: env where
  "demo_env = \<lparr>uuid4 = demo_uuid4, utcnow = (\<lambda>k. ''2024-01-15T10:00:00'')\<rparr>"

definition demo_shop :: Shop where
  "demo_shop =
     \<lparr>sh_shop_id = ''shop1'', sh_name = ''Fresh Market Store'', sh_status = ''approved'',
      sh_is_open = True, sh_accepting_orders = True, sh_minimum_order = 0,
      sh_delivery_fee = 50\<rparr>"

definition apples :: Product where
  "apples =
     \<lparr>p_product_id = ''prod1'', p_shop_id = ''shop1'', p_name = ''Fresh Red Apples'',
      p_variants =
        [\<lparr>pv_variant_id = ''var1'', pv_name = ''1kg'', pv_sku = ''AP001'', pv_mrp = 150,
          pv_selling_price = 120, pv_stock_quantity = 50, pv_is_active = True\<rparr>,
         \<lparr>pv_variant_id = ''var2'', pv_name = ''2kg'', pv_sku = ''AP002'', pv_mrp = 280,
          pv_selling_price = 220, pv_stock_quantity = 25, pv_is_active = True\<rparr>],
      p_is_active = True\<rparr>"

definition milk_1l :: "int \<Rightarrow> ProductVariant" where
  "milk_1l n =
     \<lparr>pv_variant_id = ''var3'', pv_name = ''1L'', pv_sku = ''MK001'', pv_mrp = 70,
      pv_selling_price = 60, pv_stock_quantity = n, pv_is_active = True\<rparr>"

definition milk :: "int \<Rightarrow> Product" where
  "milk n =
     \<lparr>p_product_id = ''prod2'', p_shop_id = ''shop1'', p_name = ''Organic Whole Milk'',
      p_variants =
        [milk_1l n,
         \<lparr>pv_variant_id = ''var4'', pv_name = ''500ml'', pv_sku = ''MK002'', pv_mrp = 40,
          pv_selling_price = 35, pv_stock_quantity = 15, pv_is_active = True\<rparr>],
      p_is_active = True\<rparr>"

definition catalogue :: "int \<Rightarrow> db" where
  "catalogue n =
     \<lparr>shops_table = [''shop1'' \<mapsto> demo_shop],
      products_table = [''prod1'' \<mapsto> apples, ''prod2'' \<mapsto> milk n],
      orders_table = Map.empty,
      calls = []\<rparr>"

definition line :: "string \<Rightarrow> string \<Rightarrow> int \<Rightarrow> CartItem" where
  "line pid vid q = \<lparr>ci_product_id = pid, ci_variant_id = vid, ci_quantity = q\<rparr>"

definition request :: "string \<Rightarrow> CartItem list \<Rightarrow> DeliveryType \<Rightarrow> OrderCreate" where
  "request shop_id items mode =
     \<lparr>oc_shop_id = shop_id, oc_items = items, oc_delivery_type = mode,
      oc_delivery_address = None, oc_customer_notes = None\<rparr>"

text \<open>The order lines and the order that the specification's pricing example expects.\<close>

definition apples_item :: "string \<Rightarrow> int \<Rightarrow> OrderItem" where
  "apples_item iid q =
     \<lparr>oi_item_id = iid, oi_product_id = ''prod1'', oi_variant_id = ''var1'',
      oi_product_name = ''Fresh Red Apples'', oi_variant_name = ''1kg'', oi_quantity = q,
      oi_unit_price = 120, oi_total_price = 120 * real_of_int q\<rparr>"

definition milk_item :: "string \<Rightarrow> int \<Rightarrow> OrderItem" where
  "milk_item iid q =
     \<lparr>oi_item_id = iid, oi_product_id = ''prod2'', oi_variant_id = ''var3'',
      oi_product_name = ''Organic Whole Milk'', oi_variant_name = ''1L'', oi_quantity = q,
      oi_unit_price = 60, oi_total_price = 60 * real_of_int q\<rparr>"

definition demo_order ::
  "string \<Rightarrow> OrderItem list \<Rightarrow> DeliveryType \<Rightarrow> real \<Rightarrow> real \<Rightarrow> real \<Rightarrow> Order" where
  "demo_order oid items mode subtotal fee amount =
     \<lparr>o_order_id = oid, o_customer_id = ''user1'', o_shop_id = ''shop1'', o_items = items,
      o_subtotal = subtotal, o_delivery_fee = fee, o_total_amount = amount, o_status = PENDING,
      o_delivery_type = mode, o_delivery_address = None, o_customer_notes = None,
      o_merchant_notes = None, o_estimated_delivery = None,
      o_created_at = ''2024-01-15T10:00:00'', o_updated_at = ''2024-01-15T10:00:00''\<rparr>"

text \<open>The cart of the specification's pricing example: two apples at 120 and one milk at 60.\<close>

definition example_cart :: "CartItem list" where
  "example_cart = [line ''prod1'' ''var1'' 2, line ''prod2'' ''var3'' 1]"

definition example_items :: "OrderItem list" where
  "example_items =
     [apples_item ''6fa459ea-ee8a-4ca4-894e-db77e160355e'' 2,
      milk_item ''16fd2706-8baf-433b-82eb-8c7fada847da'' 1]"

text \<open>
  \<open>stored n reads order\<close>: the store \<open>catalogue n\<close> after a call that made the lookups
  \<open>reads\<close> and then stored \<open>order\<close>.
\<close>

definition stored :: "int \<Rightarrow> db_call list \<Rightarrow> Order \<Rightarrow> db" where
  "stored n reads order =
     (catalogue n)\<lparr>orders_table := [o_order_id order \<mapsto> order],
                    calls := reads @ [PutOrder order]\<rparr>"

section \<open>The loop and the three outcomes of a call\<close>

lemma line_error_calls [simp]: "line_error (s\<lparr>calls := cs\<rparr>) = line_error s"
  by (simp add: line_error_def fun_eq_iff)

lemma line_priced_calls [simp]: "line_priced (s\<lparr>calls := cs\<rparr>) = line_priced s"
  by (simp add: line_priced_def fun_eq_iff)

lemma process_items_fail_step:
  assumes "line_error s c = Some err"
  shows "process_items s e (c # rest) items subtotal =
           (Inl err, s\<lparr>calls := calls s @ [GetProduct (ci_product_id c)]\<rparr>)"
  using assms
  by (auto simp: line_error_def get_product_def split: option.splits if_splits)

lemma process_items_pass_step:
  assumes "line_error s c = None"
  shows "\<exists>item. line_priced s c item \<and>
           process_items s e (c # rest) items subtotal =
             process_items (s\<lparr>calls := calls s @ [GetProduct (ci_product_id c)]\<rparr>) e rest
               (items @ [item]) (subtotal + oi_total_price item)"
proof -
  from assms obtain product variant where
    p: "products_table s (ci_product_id c) = Some product" and
    v: "find_variant (p_variants product) (ci_variant_id c) = Some variant" and
    q: "\<not> pv_stock_quantity variant < ci_quantity c"
    by (auto simp: line_error_def split: option.splits if_splits)
  let ?item = "\<lparr>oi_item_id = uuid4 e (length items),
                 oi_product_id = ci_product_id c,
                 oi_variant_id = ci_variant_id c,
                 oi_product_name = p_name product,
                 oi_variant_name = pv_name variant,
                 oi_quantity = ci_quantity c,
                 oi_unit_price = pv_selling_price variant,
                 oi_total_price = pv_selling_price variant * real_of_int (ci_quantity c)\<rparr>"
  have "line_priced s c ?item"
    using p v by (simp add: line_priced_def)
  moreover have "process_items s e (c # rest) items subtotal =
      process_items (s\<lparr>calls := calls s @ [GetProduct (ci_product_id c)]\<rparr>) e rest
        (items @ [?item]) (subtotal + oi_total_price ?item)"
    using p v q by (simp add: get_product_def Let_def)
  ultimately show ?thesis by blast
qed

lemma process_items_all_pass:
  assumes "\<forall>c \<in> set cs. line_error s c = None"
  shows "\<exists>new. list_all2 (line_priced s) cs new \<and>
           process_items s e cs items subtotal =
             (Inr (items @ new, subtotal + sum_list (map oi_total_price new)),
              s\<lparr>calls := calls s @ lookups cs\<rparr>)"
  using assms
proof (induction cs arbitrary: s items subtotal)
  case Nil
  then show ?case by (simp add: lookups_def)
next
  case (Cons c cs)
  let ?s1 = "s\<lparr>calls := calls s @ [GetProduct (ci_product_id c)]\<rparr>"
  from Cons.prems have "line_error s c = None" by simp
  from process_items_pass_step [OF this, of e cs items subtotal]
  obtain item where item: "line_priced s c item"
    and step: "process_items s e (c # cs) items subtotal =
                 process_items ?s1 e cs (items @ [item]) (subtotal + oi_total_price item)"
    by blast
  from Cons.prems have "\<forall>x \<in> set cs. line_error ?s1 x = None" by simp
  from Cons.IH [OF this, of "items @ [item]" "subtotal + oi_total_price item"]
  obtain new where new: "list_all2 (line_priced s) cs new"
    and run: "process_items ?s1 e cs (items @ [item]) (subtotal + oi_total_price item) =
                (Inr ((items @ [item]) @ new,
                      (subtotal + oi_total_price item) + sum_list (map oi_total_price new)),
                 ?s1\<lparr>calls := calls ?s1 @ lookups cs\<rparr>)"
    by auto
  have "list_all2 (line_priced s) (c # cs) (item # new)"
    using item new by simp
  moreover have "process_items s e (c # cs) items subtotal =
      (Inr (items @ item # new, subtotal + sum_list (map oi_total_price (item # new))),
       s\<lparr>calls := calls s @ lookups (c # cs)\<rparr>)"
    using step run by (simp add: lookups_def add.assoc)
  ultimately show ?case by blast
qed

lemma process_items_first_failure:
  assumes "\<forall>x \<in> set pre. line_error s x = None" and "line_error s c = Some err"
  shows "process_items s e (pre @ c # post) items subtotal =
           (Inl err, s\<lparr>calls := calls s @ lookups (pre @ [c])\<rparr>)"
  using assms
proof (induction pre arbitrary: s items subtotal)
  case Nil
  then show ?case by (simp add: process_items_fail_step lookups_def del: process_items.simps)
next
  case (Cons x pre)
  let ?s1 = "s\<lparr>calls := calls s @ [GetProduct (ci_product_id x)]\<rparr>"
  from Cons.prems have "line_error s x = None" by simp
  from process_items_pass_step [OF this, of e "pre @ c # post" items subtotal]
  obtain item where
    step: "process_items s e (x # pre @ c # post) items subtotal =
             process_items ?s1 e (pre @ c # post) (items @ [item]) (subtotal + oi_total_price item)"
    by blast
  from Cons.prems have "\<forall>y \<in> set pre. line_error ?s1 y = None" and "line_error ?s1 c = Some err"
    by simp_all
  from Cons.IH [OF this, of "items @ [item]" "subtotal + oi_total_price item"] step
  show ?case by (simp add: lookups_def del: process_items.simps)
qed

lemma cart_cases:
  "(\<forall>c \<in> set cs. line_error s c = None) \<or>
   (\<exists>pre c post err. cs = pre @ c # post \<and> (\<forall>x \<in> set pre. line_error s x = None) \<and>
       line_error s c = Some err)"
proof (cases "\<exists>c \<in> set cs. line_error s c \<noteq> None")
  case True
  from split_list_first_prop [OF this]
  obtain pre c post where "cs = pre @ c # post" "line_error s c \<noteq> None"
    "\<forall>x \<in> set pre. \<not> line_error s x \<noteq> None" by blast
  then show ?thesis by auto
next
  case False
  then show ?thesis by simp
qed

lemma shop_error_None:
  "shop_error s shop_id = None \<longleftrightarrow>
     (\<exists>shop. shops_table s shop_id = Some shop \<and> sh_status shop = ''approved'' \<and>
        sh_accepting_orders shop)"
  by (auto simp: shop_error_def split: option.splits)

lemma create_order_shop_unavailable:
  assumes "shop_error s (oc_shop_id od) = Some err"
  shows "create_order s e uid od =
           (Inl err, s\<lparr>calls := calls s @ [GetShop (oc_shop_id od)]\<rparr>)"
  using assms
  by (auto simp: shop_error_def create_order_def get_shop_def split: option.splits if_splits)

lemma create_order_line_fails:
  assumes "shop_error s (oc_shop_id od) = None"
    and "oc_items od = pre @ c # post"
    and "\<forall>x \<in> set pre. line_error s x = None"
    and "line_error s c = Some err"
  shows "create_order s e uid od =
           (Inl err, s\<lparr>calls := calls s @ GetShop (oc_shop_id od) # lookups (pre @ [c])\<rparr>)"
proof -
  let ?s1 = "s\<lparr>calls := calls s @ [GetShop (oc_shop_id od)]\<rparr>"
  from assms(1) obtain shop where shop: "shops_table s (oc_shop_id od) = Some shop"
    "sh_status shop = ''approved''" "sh_accepting_orders shop"
    by (auto simp: shop_error_None)
  have "process_items ?s1 e (oc_items od) [] 0 =
          (Inl err, ?s1\<lparr>calls := calls ?s1 @ lookups (pre @ [c])\<rparr>)"
    unfolding assms(2) using assms(3,4) by (intro process_items_first_failure) simp_all
  then show ?thesis
    using shop by (simp add: create_order_def get_shop_def)
qed

lemma create_order_all_pass:
  assumes "shop_error s (oc_shop_id od) = None"
    and "\<forall>c \<in> set (oc_items od). line_error s c = None"
  shows "\<exists>shop order.
           shops_table s (oc_shop_id od) = Some shop \<and>
           list_all2 (line_priced s) (oc_items od) (o_items order) \<and>
           o_subtotal order = sum_list (map oi_total_price (o_items order)) \<and>
           o_delivery_fee order =
             (case oc_delivery_type od of DELIVERY \<Rightarrow> sh_delivery_fee shop | PICKUP \<Rightarrow> 0) \<and>
           o_total_amount order = o_subtotal order + o_delivery_fee order \<and>
           o_status order = PENDING \<and>
           o_customer_id order = uid \<and>
           o_shop_id order = oc_shop_id od \<and>
           o_delivery_type order = oc_delivery_type od \<and>
           create_order s e uid od =
             (Inr order,
              s\<lparr>orders_table := (orders_table s)(o_order_id order \<mapsto> order),
                calls := calls s @ GetShop (oc_shop_id od) # lookups (oc_items od) @
                           [PutOrder order]\<rparr>)"
proof -
  let ?s1 = "s\<lparr>calls := calls s @ [GetShop (oc_shop_id od)]\<rparr>"
  from assms(1) obtain shop where shop: "shops_table s (oc_shop_id od) = Some shop"
    "sh_status shop = ''approved''" "sh_accepting_orders shop"
    by (auto simp: shop_error_None)
  from assms(2) have "\<forall>c \<in> set (oc_items od). line_error ?s1 c = None" by simp
  from process_items_all_pass [OF this, of e "[]" 0]
  obtain new where new: "list_all2 (line_priced s) (oc_items od) new"
    and run: "process_items ?s1 e (oc_items od) [] 0 =
                (Inr (new, 0 + sum_list (map oi_total_price new)),
                 ?s1\<lparr>calls := calls ?s1 @ lookups (oc_items od)\<rparr>)"
    by auto
  show ?thesis
    using shop new run
    by (cases "oc_delivery_type od")
       (simp_all add: create_order_def get_shop_def db_create_order_def Let_def)
qed

lemma put_orders_append: "put_orders (xs @ ys) = put_orders xs @ put_orders ys"
  by (induction xs rule: put_orders.induct) simp_all

lemma put_orders_lookups: "put_orders (lookups cs) = []"
  by (induction cs) (simp_all add: lookups_def)

lemma create_order_cases [case_names shop_unavailable line_fails all_pass]:
  obtains
    err where "shop_error s (oc_shop_id od) = Some err"
      and "create_order s e uid od =
             (Inl err, s\<lparr>calls := calls s @ [GetShop (oc_shop_id od)]\<rparr>)"
  | pre c post err where "shop_error s (oc_shop_id od) = None"
      and "oc_items od = pre @ c # post"
      and "\<forall>x \<in> set pre. line_error s x = None"
      and "line_error s c = Some err"
      and "create_order s e uid od =
             (Inl err, s\<lparr>calls := calls s @ GetShop (oc_shop_id od) # lookups (pre @ [c])\<rparr>)"
  | shop order where "shop_error s (oc_shop_id od) = None"
      and "\<forall>c \<in> set (oc_items od). line_error s c = None"
      and "shops_table s (oc_shop_id od) = Some shop"
      and "list_all2 (line_priced s) (oc_items od) (o_items order)"
      and "o_subtotal order = sum_list (map oi_total_price (o_items order))"
      and "o_delivery_fee order =
             (case oc_delivery_type od of DELIVERY \<Rightarrow> sh_delivery_fee shop | PICKUP \<Rightarrow> 0)"
      and "o_total_amount order = o_subtotal order + o_delivery_fee order"
      and "create_order s e uid od =
             (Inr order,
              s\<lparr>orders_table := (orders_table s)(o_order_id order \<mapsto> order),
                calls := calls s @ GetShop (oc_shop_id od) # lookups (oc_items od) @
                           [PutOrder order]\<rparr>)"
proof (cases "shop_error s (oc_shop_id od)")
  case (Some err)
  with create_order_shop_unavailable [OF Some, where e = e and uid = uid] that(1) show ?thesis by blast
next
  case None
  from cart_cases [of "oc_items od" s] show ?thesis
  proof
    assume ok: "\<forall>c \<in> set (oc_items od). line_error s c = None"
    from create_order_all_pass [OF None ok, where e = e and uid = uid] that(3) [OF None ok] show ?thesis
      by blast
  next
    assume "\<exists>pre c post err. oc_items od = pre @ c # post \<and>
              (\<forall>x \<in> set pre. line_error s x = None) \<and> line_error s c = Some err"
    then obtain pre c post err where split: "oc_items od = pre @ c # post"
      "\<forall>x \<in> set pre. line_error s x = None" "line_error s c = Some err" by blast
    from create_order_line_fails [OF None split, where e = e and uid = uid] that(2) [OF None split]
    show ?thesis by blast
  qed
qed

lemma catalogue_calls: "calls (catalogue n) = []"
  by (simp add: catalogue_def)

lemma upper_demo_ids:
  "upper ''6fa459ea'' = ''6FA459EA''"
  "upper ''16fd2706'' = ''16FD2706''"
  "upper ''886313e1'' = ''886313E1''"
  by code_simp+

lemmas demo_defs =
  catalogue_def demo_shop_def apples_def milk_def milk_1l_def demo_env_def demo_uuid4_def line_def
  request_def apples_item_def milk_item_def demo_order_def example_cart_def example_items_def
  stored_def
  create_order_def get_shop_def get_product_def db_create_order_def Let_def upper_demo_ids

section \<open>Properties of order creation\<close>



text \<open>
  C2. The store's create operation is invoked exactly once by a successful call, with the
  order that is returned, and the orders table changes by that one entry; a call that
  fails, for whatever reason, never invokes it and leaves the orders table as it was.
\<close>

theorem create_order_store_written_only_on_success:
  assumes "create_order s e uid od = (r, s')"
  shows "\<exists>cs. calls s' = calls s @ cs \<and>
           (case r of
              Inl err \<Rightarrow> put_orders cs = [] \<and> orders_table s' = orders_table s
            | Inr order \<Rightarrow> put_orders cs = [order] \<and>
                orders_table s' = (orders_table s)(o_order_id order \<mapsto> order))"
proof (cases rule: create_order_cases [where s = s and od = od and e = e and uid = uid])
  case (shop_unavailable err)
  with assms have "r = Inl err" "s' = s\<lparr>calls := calls s @ [GetShop (oc_shop_id od)]\<rparr>"
    by simp_all
  then show ?thesis by simp
next
  case (line_fails pre c post err)
  with assms have "r = Inl err"
    "s' = s\<lparr>calls := calls s @ GetShop (oc_shop_id od) # lookups (pre @ [c])\<rparr>"
    by simp_all
  then show ?thesis by (simp add: put_orders_lookups)
next
  case (all_pass shop order)
  with assms have "r = Inr order"
    "s' = s\<lparr>orders_table := (orders_table s)(o_order_id order \<mapsto> order),
            calls := calls s @ GetShop (oc_shop_id od) # lookups (oc_items od) @
                       [PutOrder order]\<rparr>"
    by simp_all
  then show ?thesis by (simp add: put_orders_append put_orders_lookups)
qed

theorem create_order_store_written_only_on_success_witness:
  "create_order (catalogue 5) demo_env ''user1''
     (request ''shop1'' [line ''prod1'' ''var1'' 2, line ''prod2'' ''var3'' 6] DELIVERY) =
     (Inl (HTTPException 400 ''Insufficient stock for Organic Whole Milk''),
      (catalogue 5)\<lparr>calls := [GetShop ''shop1'', GetProduct ''prod1'', GetProduct ''prod2'']\<rparr>) \<and>
   put_orders [GetShop ''shop1'', GetProduct ''prod1'', GetProduct ''prod2''] = [] \<and>
   orders_table
     ((catalogue 5)\<lparr>calls := [GetShop ''shop1'', GetProduct ''prod1'', GetProduct ''prod2'']\<rparr>) =
     orders_table (catalogue 5) \<and>
   create_order (catalogue 5) demo_env ''user1'' (request ''shop1'' example_cart DELIVERY) =
     (Inr (demo_order ''ORD886313E1'' example_items DELIVERY 300 50 350),
      stored 5 [GetShop ''shop1'', GetProduct ''prod1'', GetProduct ''prod2'']
        (demo_order ''ORD886313E1'' example_items DELIVERY 300 50 350)) \<and>
   put_orders
     [GetShop ''shop1'', GetProduct ''prod1'', GetProduct ''prod2'',
      PutOrder (demo_order ''ORD886313E1'' example_items DELIVERY 300 50 350)] =
     [demo_order ''ORD886313E1'' example_items DELIVERY 300 50 350]"
proof -
  have rejected: "create_order (catalogue 5) demo_env ''user1''
               (request ''shop1'' [line ''prod1'' ''var1'' 2, line ''prod2'' ''var3'' 6] DELIVERY) =
             (Inl (HTTPException 400 ''Insufficient stock for Organic Whole Milk''),
              (catalogue 5)\<lparr>calls :=
                 [GetShop ''shop1'', GetProduct ''prod1'', GetProduct ''prod2'']\<rparr>)"
    by (simp add: demo_defs)
  have accepted: "create_order (catalogue 5) demo_env ''user1''
               (request ''shop1'' example_cart DELIVERY) =
             (Inr (demo_order ''ORD886313E1'' example_items DELIVERY 300 50 350),
              stored 5 [GetShop ''shop1'', GetProduct ''prod1'', GetProduct ''prod2'']
                (demo_order ''ORD886313E1'' example_items DELIVERY 300 50 350))"
    by (simp add: demo_defs)
  from create_order_store_written_only_on_success [OF rejected]
    create_order_store_written_only_on_success [OF accepted] rejected accepted
  show ?thesis
    by (simp add: catalogue_calls)
qed

text \<open>
  C3, as stated, fails: there is no check on the number of cart lines. With an orderable
  shop an empty cart produces and stores an order with no lines and total 0.
\<close>

theorem empty_cart_creates_order:
  "create_order (catalogue 5) demo_env ''user1'' (request ''shop1'' [] PICKUP) =
     (Inr (demo_order ''ORD6FA459EA'' [] PICKUP 0 0 0),
      stored 5 [GetShop ''shop1''] (demo_order ''ORD6FA459EA'' [] PICKUP 0 0 0))"
  by (simp add: demo_defs)

text \<open>
  C3, amended. For a cart with zero lines the call is never rejected for being empty:
  if the shop is unavailable it fails with the shop check's error and stores nothing;
  otherwise, for either delivery mode, it succeeds after the shop lookup alone and
  stores an order with no lines and subtotal 0, whose total amount is its delivery fee
  (the shop's fee for DELIVERY, zero for PICKUP).
\<close>

theorem create_order_empty_cart:
  assumes "oc_items od = []"
  shows "case shop_error s (oc_shop_id od) of
           Some err \<Rightarrow>
             create_order s e uid od =
               (Inl err, s\<lparr>calls := calls s @ [GetShop (oc_shop_id od)]\<rparr>)
         | None \<Rightarrow>
             (\<exists>shop order. shops_table s (oc_shop_id od) = Some shop \<and>
                create_order s e uid od =
                  (Inr order,
                   s\<lparr>orders_table := (orders_table s)(o_order_id order \<mapsto> order),
                     calls := calls s @ [GetShop (oc_shop_id od), PutOrder order]\<rparr>) \<and>
                o_items order = [] \<and> o_subtotal order = 0 \<and>
                o_delivery_fee order =
                  (case oc_delivery_type od of
                     DELIVERY \<Rightarrow> sh_delivery_fee shop | PICKUP \<Rightarrow> 0) \<and>
                o_total_amount order = o_delivery_fee order)"
proof (cases "shop_error s (oc_shop_id od)")
  case (Some err)
  from create_order_shop_unavailable [OF Some, where e = e and uid = uid] Some
  show ?thesis by simp
next
  case None
  from assms have "\<forall>c \<in> set (oc_items od). line_error s c = None" by simp
  from create_order_all_pass [OF None this, where e = e and uid = uid]
  obtain shop order where "shops_table s (oc_shop_id od) = Some shop"
    "list_all2 (line_priced s) (oc_items od) (o_items order)"
    "o_subtotal order = sum_list (map oi_total_price (o_items order))"
    "o_delivery_fee order =
       (case oc_delivery_type od of DELIVERY \<Rightarrow> sh_delivery_fee shop | PICKUP \<Rightarrow> 0)"
    "o_total_amount order = o_subtotal order + o_delivery_fee order"
    "create_order s e uid od =
       (Inr order,
        s\<lparr>orders_table := (orders_table s)(o_order_id order \<mapsto> order),
          calls := calls s @ GetShop (oc_shop_id od) # lookups (oc_items od) @
                     [PutOrder order]\<rparr>)"
    by blast
  with assms None show ?thesis by (auto simp: lookups_def)
qed

theorem create_order_empty_cart_witness:
  "oc_items (request ''shop1'' [] DELIVERY) = [] \<and>
   shop_error (catalogue 5) ''shop1'' = None \<and>
   create_order (catalogue 5) demo_env ''user1'' (request ''shop1'' [] DELIVERY) =
     (Inr (demo_order ''ORD6FA459EA'' [] DELIVERY 0 50 50),
      stored 5 [GetShop ''shop1''] (demo_order ''ORD6FA459EA'' [] DELIVERY 0 50 50)) \<and>
   oc_items (request ''shop9'' [] DELIVERY) = [] \<and>
   shop_error (catalogue 5) ''shop9'' = Some (HTTPException 404 ''Shop not found'') \<and>
   create_order (catalogue 5) demo_env ''user1'' (request ''shop9'' [] DELIVERY) =
     (Inl (HTTPException 404 ''Shop not found''), (catalogue 5)\<lparr>calls := [GetShop ''shop9'']\<rparr>)"
proof -
  have e1: "oc_items (request ''shop1'' [] DELIVERY) = []"
    and e9: "oc_items (request ''shop9'' [] DELIVERY) = []"
    by (simp_all add: request_def)
  have shop1: "shop_error (catalogue 5) ''shop1'' = None"
    by (simp add: shop_error_def demo_defs)
  have shop9: "shop_error (catalogue 5) ''shop9'' = Some (HTTPException 404 ''Shop not found'')"
    by (simp add: shop_error_def demo_defs)
  have run: "create_order (catalogue 5) demo_env ''user1'' (request ''shop1'' [] DELIVERY) =
     (Inr (demo_order ''ORD6FA459EA'' [] DELIVERY 0 50 50),
      stored 5 [GetShop ''shop1''] (demo_order ''ORD6FA459EA'' [] DELIVERY 0 50 50))"
    by (simp add: demo_defs)
  have "create_order (catalogue 5) demo_env ''user1'' (request ''shop9'' [] DELIVERY) =
     (Inl (HTTPException 404 ''Shop not found''), (catalogue 5)\<lparr>calls := [GetShop ''shop9'']\<rparr>)"
    using create_order_empty_cart [OF e9, where s = "catalogue 5" and e = demo_env
        and uid = "''user1''"] shop9
    by (simp add: request_def catalogue_calls)
  moreover note create_order_empty_cart [OF e1, where s = "catalogue 5" and e = demo_env
        and uid = "''user1''"]
  ultimately show ?thesis using e1 e9 shop1 shop9 run by simp
qed













end
